theory Spec2Isabelle
  imports Complex_Main "HOL-Library.Multiset"
begin

section \<open>The population-genetics simulation of main.py\<close>

text \<open>
  The script simulates one gene locus with two alleles over discrete generations.
  Organisms are Python strings (the two allele characters concatenated); they are
  modelled as \<open>string\<close>. The module-level parameters of the script are the fields of
  the record \<open>config\<close>. Python floats are modelled as reals, Python ints as \<open>int\<close>
  (or \<open>nat\<close> for the two counts passed to \<open>range\<close> at top level).

  Every random draw of the script is read from an explicit random source \<open>rng\<close>:
  three infinite streams (the results of \<open>np.random.uniform()\<close>, the standard normal
  deviates behind \<open>np.random.normal\<close>, and the raw integers behind
  \<open>random.choice\<close> and \<open>random.shuffle\<close>) together with the read positions.
  A theorem quantified over \<open>rng\<close> holds for every outcome of the draws.

  A Python exception is a value of type \<open>error\<close>; a loop that never exits is the
  value \<open>None\<close> of the option type.
\<close>

subsection \<open>Parameters, errors and the random source\<close>

datatype error = UnboundLocalError | IndexError | ValueError | ZeroDivisionError

definition DOMINANT_ALLELE :: string where
  "DOMINANT_ALLELE = ''A''"

definition RECESSIVE_ALLELE :: string where
  "RECESSIVE_ALLELE = ''a''"

record config =
  HOM_DOM_SURV_PROB :: real
  HET_SURV_PROB :: real
  HOM_REC_SURV_PROB :: real
  N_INITIAL_ORGANISMS :: nat
  N_GENERATIONS :: nat
  OFFSPRING_N_MEAN :: real
  OFFSPRING_N_STD :: real
  CARRYING_CAPACITY :: int

text \<open>The values written in the script.\<close>

definition script_config :: config where
  "script_config =
     \<lparr>HOM_DOM_SURV_PROB = 99 / 100, HET_SURV_PROB = 99 / 100, HOM_REC_SURV_PROB = 99 / 100,
      N_INITIAL_ORGANISMS = 100, N_GENERATIONS = 20,
      OFFSPRING_N_MEAN = 5 / 2, OFFSPRING_N_STD = 1 / 2, CARRYING_CAPACITY = 1000\<rparr>"

record rng =
  uniforms :: "nat \<Rightarrow> real"
  u_pos :: nat
  normals :: "nat \<Rightarrow> real"
  n_pos :: nat
  randoms :: "nat \<Rightarrow> nat"
  r_pos :: nat

text \<open>\<open>np.random.uniform()\<close>: the next value of the uniform stream.\<close>

definition np_random_uniform :: "rng \<Rightarrow> real \<times> rng" where
  "np_random_uniform r = (uniforms r (u_pos r), r\<lparr>u_pos := Suc (u_pos r)\<rparr>)"

text \<open>
  \<open>np.random.normal(loc, scale)\<close>: numpy raises ValueError for a negative scale and
  otherwise returns \<open>loc + scale * z\<close> for the next standard normal deviate \<open>z\<close>.
\<close>

definition np_random_normal :: "real \<Rightarrow> real \<Rightarrow> rng \<Rightarrow> error + real \<times> rng" where
  "np_random_normal loc scale r =
     (if scale < 0 then Inl ValueError
      else Inr (loc + scale * normals r (n_pos r), r\<lparr>n_pos := Suc (n_pos r)\<rparr>))"

text \<open>
  The integer below \<open>n\<close> that the standard library's \<open>random\<close> module draws for
  \<open>choice\<close> and \<open>shuffle\<close> (only called with \<open>0 < n\<close>).
\<close>

definition randbelow :: "nat \<Rightarrow> rng \<Rightarrow> nat \<times> rng" where
  "randbelow n r = (randoms r (r_pos r) mod n, r\<lparr>r_pos := Suc (r_pos r)\<rparr>)"

text \<open>\<open>random.choice(seq)\<close> is \<open>seq[randbelow(len(seq))]\<close>, an IndexError on an empty sequence.\<close>

definition random_choice :: "'a list \<Rightarrow> rng \<Rightarrow> error + 'a \<times> rng" where
  "random_choice seq r =
     (if seq = [] then Inl IndexError
      else (case randbelow (length seq) r of (j, r') \<Rightarrow> Inr (seq ! j, r')))"

text \<open>
  \<open>random.shuffle(x)\<close>: for \<open>i\<close> from \<open>len(x) - 1\<close> down to 1, draw
  \<open>j = randbelow(i + 1)\<close> and swap \<open>x[i]\<close> with \<open>x[j]\<close>.
\<close>

fun shuffle_loop :: "nat \<Rightarrow> 'a list \<Rightarrow> rng \<Rightarrow> 'a list \<times> rng" where
  "shuffle_loop 0 x r = (x, r)"
| "shuffle_loop (Suc i) x r =
     (case randbelow (Suc i + 1) r of
        (j, r') \<Rightarrow> shuffle_loop i (x[Suc i := x ! j, j := x ! Suc i]) r')"

definition random_shuffle :: "'a list \<Rightarrow> rng \<Rightarrow> 'a list \<times> rng" where
  "random_shuffle x r = shuffle_loop (length x - 1) x r"

subsection \<open>Genotype predicates\<close>

definition isHomDom :: "string \<Rightarrow> bool" where
  "isHomDom org = (if org = DOMINANT_ALLELE @ DOMINANT_ALLELE then True else False)"

definition isHomRec :: "string \<Rightarrow> bool" where
  "isHomRec org = (if org = RECESSIVE_ALLELE @ RECESSIVE_ALLELE then True else False)"

definition isHet :: "string \<Rightarrow> bool" where
  "isHet org =
     (if org = DOMINANT_ALLELE @ RECESSIVE_ALLELE \<or> org = RECESSIVE_ALLELE @ DOMINANT_ALLELE
      then True else False)"

subsection \<open>Survival\<close>

text \<open>
  The three independent \<open>if\<close> statements of \<open>checkSurvival\<close>; \<open>None\<close> is the local
  variable \<open>probability\<close> left unbound.
\<close>

definition survival_probability :: "config \<Rightarrow> string \<Rightarrow> real option" where
  "survival_probability cfg genotype =
     (let p0 = None;
          p1 = (if isHomDom genotype then Some (HOM_DOM_SURV_PROB cfg) else p0);
          p2 = (if isHet genotype then Some (HET_SURV_PROB cfg) else p1);
          p3 = (if isHomRec genotype then Some (HOM_REC_SURV_PROB cfg) else p2)
      in p3)"

text \<open>
  The comparison \<open>np.random.uniform() < probability\<close> draws first and then reads
  \<open>probability\<close>, which raises UnboundLocalError when no branch assigned it.
\<close>

definition checkSurvival :: "config \<Rightarrow> string \<Rightarrow> rng \<Rightarrow> error + bool \<times> rng" where
  "checkSurvival cfg genotype r =
     (case np_random_uniform r of
        (u, r') \<Rightarrow>
          (case survival_probability cfg genotype of
             None \<Rightarrow> Inl UnboundLocalError
           | Some probability \<Rightarrow> Inr (if u < probability then True else False, r')))"

text \<open>
  The list comprehension
  \<open>[genotype for genotype in CURRENT_POPULATION if checkSurvival(genotype)]\<close>.
\<close>

fun survival_pass :: "config \<Rightarrow> string list \<Rightarrow> rng \<Rightarrow> error + string list \<times> rng" where
  "survival_pass cfg [] r = Inr ([], r)"
| "survival_pass cfg (genotype # rest) r =
     (case checkSurvival cfg genotype r of
        Inl e \<Rightarrow> Inl e
      | Inr (keep, r') \<Rightarrow>
          (case survival_pass cfg rest r' of
             Inl e \<Rightarrow> Inl e
           | Inr (kept, r'') \<Rightarrow> Inr (if keep then genotype # kept else kept, r'')))"

text \<open>
  The loop \<open>while len(CURRENT_POPULATION) > CARRYING_CAPACITY\<close>. It has no bound on
  its iterations: \<open>None\<close> is the loop that never exits.
\<close>

partial_function (option) enforce_capacity ::
  "config \<Rightarrow> string list \<Rightarrow> rng \<Rightarrow> (error + string list \<times> rng) option" where
  "enforce_capacity cfg pop r =
     (if int (length pop) > CARRYING_CAPACITY cfg
      then (case survival_pass cfg pop r of
              Inl e \<Rightarrow> Some (Inl e)
            | Inr (pop', r') \<Rightarrow> enforce_capacity cfg pop' r')
      else Some (Inr (pop, r)))"

subsection \<open>Reproduction\<close>

text \<open>
  Python's \<open>round\<close> of a float with one argument: the nearest integer, a tie going to
  the even neighbour.
\<close>

definition py_round :: "real \<Rightarrow> int" where
  "py_round x =
     (let f = \<lfloor>x\<rfloor>; d = x - of_int f
      in if d < 1 / 2 then f
         else if 1 / 2 < d then f + 1
         else if even f then f else f + 1)"

definition howManyOffspring :: "config \<Rightarrow> rng \<Rightarrow> error + int \<times> rng" where
  "howManyOffspring cfg r =
     (case np_random_normal (OFFSPRING_N_MEAN cfg) (OFFSPRING_N_STD cfg) r of
        Inl e \<Rightarrow> Inl e
      | Inr (x, r') \<Rightarrow> Inr (py_round x, r'))"

definition generateOffspring :: "string \<Rightarrow> string \<Rightarrow> rng \<Rightarrow> error + string \<times> rng" where
  "generateOffspring p1 p2 r =
     (case random_choice p1 r of
        Inl e \<Rightarrow> Inl e
      | Inr (a1, r') \<Rightarrow>
          (case random_choice p2 r' of
             Inl e \<Rightarrow> Inl e
           | Inr (a2, r'') \<Rightarrow> Inr ([a1] @ [a2], r'')))"

text \<open>Indexing a list with a non-negative index: IndexError out of range.\<close>

definition py_index :: "'a list \<Rightarrow> nat \<Rightarrow> error + 'a" where
  "py_index xs i = (if i < length xs then Inr (xs ! i) else Inl IndexError)"

text \<open>The slices \<open>l[::2]\<close> (here \<open>stride2 l\<close>) and \<open>l[1::2]\<close> (here \<open>stride2 (drop 1 l)\<close>).\<close>

fun stride2 :: "'a list \<Rightarrow> 'a list" where
  "stride2 [] = []"
| "stride2 [x] = [x]"
| "stride2 (x # y # xs) = x # stride2 xs"

text \<open>
  The index pairs \<open>(l1[pairnum], l2[pairnum])\<close> visited by
  \<open>for pairnum in range(min(len(l1), len(l2)))\<close>.
\<close>

definition mating_pairs :: "nat list \<Rightarrow> nat list \<Rightarrow> (nat \<times> nat) list" where
  "mating_pairs l1 l2 =
     map (\<lambda>pairnum. (l1 ! pairnum, l2 ! pairnum)) [0..<min (length l1) (length l2)]"

text \<open>
  The inner loop \<open>for offspringnum in range(n)\<close> for one pair, run \<open>k\<close> times: each
  iteration reads both parents from the current population and appends one offspring.
\<close>

fun offspring_loop ::
  "nat \<Rightarrow> string list \<Rightarrow> nat \<times> nat \<Rightarrow> string list \<Rightarrow> rng \<Rightarrow> error + string list \<times> rng" where
  "offspring_loop 0 pop pr new r = Inr (new, r)"
| "offspring_loop (Suc k) pop pr new r =
     (case py_index pop (fst pr) of
        Inl e \<Rightarrow> Inl e
      | Inr p1 \<Rightarrow>
          (case py_index pop (snd pr) of
             Inl e \<Rightarrow> Inl e
           | Inr p2 \<Rightarrow>
               (case generateOffspring p1 p2 r of
                  Inl e \<Rightarrow> Inl e
                | Inr (child, r') \<Rightarrow> offspring_loop k pop pr (new @ [child]) r')))"

text \<open>
  One pair: draw the number of offspring, then run the inner loop. \<open>range(n)\<close> is empty
  for \<open>n \<le> 0\<close>, so the loop runs \<open>nat n\<close> times.
\<close>

definition reproduce_pair ::
  "config \<Rightarrow> string list \<Rightarrow> nat \<times> nat \<Rightarrow> string list \<Rightarrow> rng \<Rightarrow> error + string list \<times> rng" where
  "reproduce_pair cfg pop pr new r =
     (case howManyOffspring cfg r of
        Inl e \<Rightarrow> Inl e
      | Inr (n, r') \<Rightarrow> offspring_loop (nat n) pop pr new r')"

fun pair_loop ::
  "config \<Rightarrow> string list \<Rightarrow> (nat \<times> nat) list \<Rightarrow> string list \<Rightarrow> rng \<Rightarrow> error + string list \<times> rng" where
  "pair_loop cfg pop [] new r = Inr (new, r)"
| "pair_loop cfg pop (pr # prs) new r =
     (case reproduce_pair cfg pop pr new r of
        Inl e \<Rightarrow> Inl e
      | Inr (new', r') \<Rightarrow> pair_loop cfg pop prs new' r')"

subsection \<open>The main simulation loop\<close>

text \<open>
  One iteration of the main loop, from the current population: the population recorded
  in \<open>GENERATIONAL_DATA\<close> and the next current population.
\<close>

definition generation ::
  "config \<Rightarrow> string list \<Rightarrow> rng \<Rightarrow> (error + string list \<times> string list \<times> rng) option" where
  "generation cfg pop r =
     (case survival_pass cfg pop r of
        Inl e \<Rightarrow> Some (Inl e)
      | Inr (pop1, r1) \<Rightarrow>
          (case enforce_capacity cfg pop1 r1 of
             None \<Rightarrow> None
           | Some (Inl e) \<Rightarrow> Some (Inl e)
           | Some (Inr (cur, r2)) \<Rightarrow>
               (case random_shuffle [0..<length cur] r2 of
                  (l, r3) \<Rightarrow>
                    (case pair_loop cfg cur (mating_pairs (stride2 l) (stride2 (drop 1 l))) [] r3 of
                       Inl e \<Rightarrow> Some (Inl e)
                     | Inr (new, r4) \<Rightarrow> Some (Inr (cur, new, r4))))))"

text \<open>
  \<open>main_loop cfg n\<close> runs \<open>n\<close> iterations from the state
  (\<open>GENERATIONAL_DATA\<close>, \<open>CURRENT_POPULATION\<close>, random source).
\<close>

fun main_loop ::
  "config \<Rightarrow> nat \<Rightarrow> string list list \<times> string list \<times> rng \<Rightarrow>
   (error + string list list \<times> string list \<times> rng) option" where
  "main_loop cfg 0 st = Some (Inr st)"
| "main_loop cfg (Suc n) st =
     (case st of
        (hist, pop, r) \<Rightarrow>
          (case generation cfg pop r of
             None \<Rightarrow> None
           | Some (Inl e) \<Rightarrow> Some (Inl e)
           | Some (Inr (cur, new, r')) \<Rightarrow> main_loop cfg n (hist @ [cur], new, r')))"

definition initial_population :: "config \<Rightarrow> string list" where
  "initial_population cfg = replicate (N_INITIAL_ORGANISMS cfg) (DOMINANT_ALLELE @ RECESSIVE_ALLELE)"

definition simulate ::
  "config \<Rightarrow> rng \<Rightarrow> (error + string list list \<times> string list \<times> rng) option" where
  "simulate cfg r = main_loop cfg (N_GENERATIONS cfg) ([], initial_population cfg, r)"

subsection \<open>Statistics\<close>

record counts =
  n_hom_dom :: nat
  n_het :: nat
  n_hom_rec :: nat
  n_dom_allele :: nat
  n_rec_allele :: nat

definition zero_counts :: counts where
  "zero_counts = \<lparr>n_hom_dom = 0, n_het = 0, n_hom_rec = 0, n_dom_allele = 0, n_rec_allele = 0\<rparr>"

text \<open>The loop \<open>for organism in generation\<close> with its two \<open>continue\<close> statements.\<close>

fun count_organisms :: "string list \<Rightarrow> counts \<Rightarrow> counts" where
  "count_organisms [] c = c"
| "count_organisms (organism # rest) c =
     (if isHomDom organism
      then count_organisms rest
             (c\<lparr>n_hom_dom := n_hom_dom c + 1, n_dom_allele := n_dom_allele c + 2\<rparr>)
      else if isHomRec organism
      then count_organisms rest
             (c\<lparr>n_hom_rec := n_hom_rec c + 1, n_rec_allele := n_rec_allele c + 2\<rparr>)
      else if isHet organism
      then count_organisms rest
             (c\<lparr>n_het := n_het c + 1, n_dom_allele := n_dom_allele c + 1,
                n_rec_allele := n_rec_allele c + 1\<rparr>)
      else count_organisms rest c)"

record series =
  HOM_DOM_N_LIST :: "real list"
  HET_N_LIST :: "real list"
  HOM_REC_N_LIST :: "real list"
  DOM_ALLELE_N :: "real list"
  REC_ALLELE_N :: "real list"
  TOTAL_N :: "nat list"

definition empty_series :: series where
  "empty_series =
     \<lparr>HOM_DOM_N_LIST = [], HET_N_LIST = [], HOM_REC_N_LIST = [],
      DOM_ALLELE_N = [], REC_ALLELE_N = [], TOTAL_N = []\<rparr>"

text \<open>Python's \<open>a / b\<close> on integers: a float, ZeroDivisionError for a zero divisor.\<close>

definition py_truediv :: "nat \<Rightarrow> nat \<Rightarrow> error + real" where
  "py_truediv a b = (if b = 0 then Inl ZeroDivisionError else Inr (real a / real b))"

text \<open>The two totals after the guard \<open>if genotype_total == 0 or allele_total == 0\<close>.\<close>

definition guarded_totals :: "counts \<Rightarrow> nat \<times> nat" where
  "guarded_totals c =
     (let genotype_total = n_hom_dom c + n_het c + n_hom_rec c;
          allele_total = n_dom_allele c + n_rec_allele c
      in if genotype_total = 0 \<or> allele_total = 0 then (1, 1)
         else (genotype_total, allele_total))"

text \<open>The body of \<open>for generation in GENERATIONAL_DATA\<close>: one entry appended to each list.\<close>

definition generation_stats :: "string list \<Rightarrow> series \<Rightarrow> error + series" where
  "generation_stats gen s =
     (let c = count_organisms gen zero_counts in
      case guarded_totals c of
        (genotype_total, allele_total) \<Rightarrow>
          (case py_truediv (100 * n_hom_dom c) genotype_total of
             Inl e \<Rightarrow> Inl e
           | Inr hd_pct \<Rightarrow>
          (case py_truediv (100 * n_hom_rec c) genotype_total of
             Inl e \<Rightarrow> Inl e
           | Inr hr_pct \<Rightarrow>
          (case py_truediv (100 * n_het c) genotype_total of
             Inl e \<Rightarrow> Inl e
           | Inr het_pct \<Rightarrow>
          (case py_truediv (100 * n_dom_allele c) allele_total of
             Inl e \<Rightarrow> Inl e
           | Inr dom_pct \<Rightarrow>
          (case py_truediv (100 * n_rec_allele c) allele_total of
             Inl e \<Rightarrow> Inl e
           | Inr rec_pct \<Rightarrow>
               Inr (s\<lparr>HOM_DOM_N_LIST := HOM_DOM_N_LIST s @ [hd_pct],
                      HOM_REC_N_LIST := HOM_REC_N_LIST s @ [hr_pct],
                      HET_N_LIST := HET_N_LIST s @ [het_pct],
                      DOM_ALLELE_N := DOM_ALLELE_N s @ [dom_pct],
                      REC_ALLELE_N := REC_ALLELE_N s @ [rec_pct],
                      TOTAL_N := TOTAL_N s @ [genotype_total]\<rparr>)))))))"

fun statistics_loop :: "string list list \<Rightarrow> series \<Rightarrow> error + series" where
  "statistics_loop [] s = Inr s"
| "statistics_loop (gen # gens) s =
     (case generation_stats gen s of
        Inl e \<Rightarrow> Inl e
      | Inr s' \<Rightarrow> statistics_loop gens s')"

definition statistics :: "string list list \<Rightarrow> error + series" where
  "statistics GENERATIONAL_DATA = statistics_loop GENERATIONAL_DATA empty_series"

subsection \<open>A small run used as a concrete input\<close>

text \<open>
  Two initial organisms, three generations, the other parameters as in the script.
  With the draws below both organisms survive the first selection (\<open>1/2 < 0.99\<close>),
  the shuffle pairs them, and the offspring count is \<open>round(2.5 + 0.5 * (-9)) = -2\<close>,
  so the population dies out after the first generation.
\<close>

definition example_config :: config where
  "example_config = script_config\<lparr>N_INITIAL_ORGANISMS := 2, N_GENERATIONS := 3\<rparr>"

definition example_rng :: rng where
  "example_rng =
     \<lparr>uniforms = (\<lambda>k. 1 / 2), u_pos = 0, normals = (\<lambda>k. - 9), n_pos = 0,
      randoms = (\<lambda>k. 0), r_pos = 0\<rparr>"

section \<open>Properties\<close>

subsection \<open>Evaluation of the example run\<close>

lemmas run_defs =
  example_config_def example_rng_def script_config_def simulate_def initial_population_def
  generation_def enforce_capacity.simps checkSurvival_def survival_probability_def
  np_random_uniform_def isHomDom_def isHet_def isHomRec_def DOMINANT_ALLELE_def
  RECESSIVE_ALLELE_def random_shuffle_def randbelow_def mating_pairs_def reproduce_pair_def
  howManyOffspring_def np_random_normal_def py_round_def Let_def

lemma example_run:
  "simulate example_config example_rng =
     Some (Inr ([[''Aa'', ''Aa''], [], []], [],
                example_rng\<lparr>u_pos := 2, n_pos := 1, r_pos := 1\<rparr>))"
  by (simp add: run_defs numeral_3_eq_3 numeral_2_eq_2)

lemma example_statistics:
  "statistics [[''Aa'', ''Aa''], [], []] =
     Inr \<lparr>HOM_DOM_N_LIST = [0, 0, 0], HET_N_LIST = [100, 0, 0], HOM_REC_N_LIST = [0, 0, 0],
          DOM_ALLELE_N = [50, 0, 0], REC_ALLELE_N = [50, 0, 0], TOTAL_N = [2, 1, 1]\<rparr>"
  by (simp add: statistics_def generation_stats_def guarded_totals_def py_truediv_def
      empty_series_def zero_counts_def isHomDom_def isHet_def isHomRec_def DOMINANT_ALLELE_def
      RECESSIVE_ALLELE_def Let_def)

subsection \<open>Genotype classification\<close>

text \<open>
  Claim C5. For every genotype formed by concatenating two alleles, each the dominant or
  the recessive one, exactly one of \<open>isHomDom\<close>, \<open>isHet\<close>, \<open>isHomRec\<close> holds.
\<close>

theorem genotype_partition:
  "\<forall>a \<in> {DOMINANT_ALLELE, RECESSIVE_ALLELE}. \<forall>b \<in> {DOMINANT_ALLELE, RECESSIVE_ALLELE}.
     (isHomDom (a @ b) \<and> \<not> isHet (a @ b) \<and> \<not> isHomRec (a @ b)) \<or>
     (\<not> isHomDom (a @ b) \<and> isHet (a @ b) \<and> \<not> isHomRec (a @ b)) \<or>
     (\<not> isHomDom (a @ b) \<and> \<not> isHet (a @ b) \<and> isHomRec (a @ b))"
  by (auto simp: isHomDom_def isHet_def isHomRec_def DOMINANT_ALLELE_def RECESSIVE_ALLELE_def)

theorem genotype_partition_witness:
  "DOMINANT_ALLELE \<in> {DOMINANT_ALLELE, RECESSIVE_ALLELE} \<and>
   RECESSIVE_ALLELE \<in> {DOMINANT_ALLELE, RECESSIVE_ALLELE} \<and>
   \<not> isHomDom (RECESSIVE_ALLELE @ DOMINANT_ALLELE) \<and>
   isHet (RECESSIVE_ALLELE @ DOMINANT_ALLELE) \<and>
   \<not> isHomRec (RECESSIVE_ALLELE @ DOMINANT_ALLELE)"
  using genotype_partition [rule_format, of RECESSIVE_ALLELE DOMINANT_ALLELE]
  by (simp add: isHomDom_def isHomRec_def DOMINANT_ALLELE_def RECESSIVE_ALLELE_def)

subsection \<open>Statistics\<close>

lemma count_organisms_alleles:
  "2 * n_hom_dom c + n_het c = n_dom_allele c \<Longrightarrow> 2 * n_hom_rec c + n_het c = n_rec_allele c \<Longrightarrow>
   2 * n_hom_dom (count_organisms gen c) + n_het (count_organisms gen c) = n_dom_allele (count_organisms gen c) \<and>
   2 * n_hom_rec (count_organisms gen c) + n_het (count_organisms gen c) = n_rec_allele (count_organisms gen c)"
  by (induction gen arbitrary: c) auto

lemma generation_stats_appends:
  "\<exists>a b c d e t.
     generation_stats gen s =
       Inr (s\<lparr>HOM_DOM_N_LIST := HOM_DOM_N_LIST s @ [a],
              HOM_REC_N_LIST := HOM_REC_N_LIST s @ [b],
              HET_N_LIST := HET_N_LIST s @ [c],
              DOM_ALLELE_N := DOM_ALLELE_N s @ [d],
              REC_ALLELE_N := REC_ALLELE_N s @ [e],
              TOTAL_N := TOTAL_N s @ [t]\<rparr>) \<and>
     (gen = [] \<longrightarrow> a = 0 \<and> b = 0 \<and> c = 0 \<and> d = 0 \<and> e = 0 \<and> t = 1)"
proof -
  obtain gt atot where tot: "guarded_totals (count_organisms gen zero_counts) = (gt, atot)"
    by (cases "guarded_totals (count_organisms gen zero_counts)")
  then have nz: "gt \<noteq> 0" "atot \<noteq> 0"
    by (auto simp: guarded_totals_def Let_def split: if_splits)
  have emp: "gen = [] \<Longrightarrow> gt = 1 \<and> count_organisms gen zero_counts = zero_counts"
    using tot by (simp add: guarded_totals_def Let_def zero_counts_def)
  define c where "c = count_organisms gen zero_counts"
  have eq: "generation_stats gen s =
       Inr (s\<lparr>HOM_DOM_N_LIST := HOM_DOM_N_LIST s @ [real (100 * n_hom_dom c) / real gt],
              HOM_REC_N_LIST := HOM_REC_N_LIST s @ [real (100 * n_hom_rec c) / real gt],
              HET_N_LIST := HET_N_LIST s @ [real (100 * n_het c) / real gt],
              DOM_ALLELE_N := DOM_ALLELE_N s @ [real (100 * n_dom_allele c) / real atot],
              REC_ALLELE_N := REC_ALLELE_N s @ [real (100 * n_rec_allele c) / real atot],
              TOTAL_N := TOTAL_N s @ [gt]\<rparr>)"
    unfolding generation_stats_def Let_def tot py_truediv_def c_def
    using nz by simp
  have zero: "gen = [] \<Longrightarrow> c = zero_counts \<and> gt = 1"
    using emp by (simp add: c_def)
  show ?thesis
    by (intro exI conjI, rule eq) (use zero in \<open>simp add: zero_counts_def\<close>)
qed

lemma statistics_loop_appends:
  "\<exists>as bs cs ds es ts.
     statistics_loop gens s =
       Inr (s\<lparr>HOM_DOM_N_LIST := HOM_DOM_N_LIST s @ as,
              HOM_REC_N_LIST := HOM_REC_N_LIST s @ bs,
              HET_N_LIST := HET_N_LIST s @ cs,
              DOM_ALLELE_N := DOM_ALLELE_N s @ ds,
              REC_ALLELE_N := REC_ALLELE_N s @ es,
              TOTAL_N := TOTAL_N s @ ts\<rparr>) \<and>
     length as = length gens \<and> length bs = length gens \<and> length cs = length gens \<and>
     length ds = length gens \<and> length es = length gens \<and> length ts = length gens \<and>
     (\<forall>g < length gens. gens ! g = [] \<longrightarrow>
        as ! g = 0 \<and> bs ! g = 0 \<and> cs ! g = 0 \<and> ds ! g = 0 \<and> es ! g = 0 \<and> ts ! g = 1)"
proof (induction gens arbitrary: s)
  case Nil
  show ?case by simp
next
  case (Cons gen gens)
  obtain a b c d e t where
    step: "generation_stats gen s =
       Inr (s\<lparr>HOM_DOM_N_LIST := HOM_DOM_N_LIST s @ [a],
              HOM_REC_N_LIST := HOM_REC_N_LIST s @ [b],
              HET_N_LIST := HET_N_LIST s @ [c],
              DOM_ALLELE_N := DOM_ALLELE_N s @ [d],
              REC_ALLELE_N := REC_ALLELE_N s @ [e],
              TOTAL_N := TOTAL_N s @ [t]\<rparr>)"
    and ext: "gen = [] \<longrightarrow> a = 0 \<and> b = 0 \<and> c = 0 \<and> d = 0 \<and> e = 0 \<and> t = 1"
    using generation_stats_appends [of gen s] by blast
  define s1 where "s1 = s\<lparr>HOM_DOM_N_LIST := HOM_DOM_N_LIST s @ [a],
              HOM_REC_N_LIST := HOM_REC_N_LIST s @ [b],
              HET_N_LIST := HET_N_LIST s @ [c],
              DOM_ALLELE_N := DOM_ALLELE_N s @ [d],
              REC_ALLELE_N := REC_ALLELE_N s @ [e],
              TOTAL_N := TOTAL_N s @ [t]\<rparr>"
  obtain as bs cs ds es ts where
    rest: "statistics_loop gens s1 =
       Inr (s1\<lparr>HOM_DOM_N_LIST := HOM_DOM_N_LIST s1 @ as,
              HOM_REC_N_LIST := HOM_REC_N_LIST s1 @ bs,
              HET_N_LIST := HET_N_LIST s1 @ cs,
              DOM_ALLELE_N := DOM_ALLELE_N s1 @ ds,
              REC_ALLELE_N := REC_ALLELE_N s1 @ es,
              TOTAL_N := TOTAL_N s1 @ ts\<rparr>)"
    and len: "length as = length gens" "length bs = length gens" "length cs = length gens"
      "length ds = length gens" "length es = length gens" "length ts = length gens"
    and zero: "\<forall>g < length gens. gens ! g = [] \<longrightarrow>
        as ! g = 0 \<and> bs ! g = 0 \<and> cs ! g = 0 \<and> ds ! g = 0 \<and> es ! g = 0 \<and> ts ! g = 1"
    using Cons.IH [of s1] by blast
  have eq: "statistics_loop (gen # gens) s =
       Inr (s\<lparr>HOM_DOM_N_LIST := HOM_DOM_N_LIST s @ (a # as),
              HOM_REC_N_LIST := HOM_REC_N_LIST s @ (b # bs),
              HET_N_LIST := HET_N_LIST s @ (c # cs),
              DOM_ALLELE_N := DOM_ALLELE_N s @ (d # ds),
              REC_ALLELE_N := REC_ALLELE_N s @ (e # es),
              TOTAL_N := TOTAL_N s @ (t # ts)\<rparr>)"
    using step rest by (simp add: s1_def)
  have nth: "\<forall>g < length (gen # gens). (gen # gens) ! g = [] \<longrightarrow>
        (a # as) ! g = 0 \<and> (b # bs) ! g = 0 \<and> (c # cs) ! g = 0 \<and>
        (d # ds) ! g = 0 \<and> (e # es) ! g = 0 \<and> (t # ts) ! g = 1"
  proof (intro allI impI)
    fix g assume "g < length (gen # gens)" "(gen # gens) ! g = []"
    then show "(a # as) ! g = 0 \<and> (b # bs) ! g = 0 \<and> (c # cs) ! g = 0 \<and>
        (d # ds) ! g = 0 \<and> (e # es) ! g = 0 \<and> (t # ts) ! g = 1"
      using ext zero by (cases g) simp_all
  qed
  show ?case
    apply (rule exI [of _ "a # as"], rule exI [of _ "b # bs"], rule exI [of _ "c # cs"])
    apply (rule exI [of _ "d # ds"], rule exI [of _ "e # es"], rule exI [of _ "t # ts"])
    using eq nth len by simp
qed

lemma main_loop_length:
  "main_loop cfg n (hist, pop, r) = Some (Inr (hist', pop', r')) \<Longrightarrow> length hist' = length hist + n"
  by (induction n arbitrary: hist pop r) (auto split: option.splits sum.splits prod.splits)

lemma py_round_nearest: "\<bar>real_of_int (py_round x) - x\<bar> \<le> 1 / 2"
  unfolding py_round_def Let_def by (auto; linarith)

text \<open>
  Claim C6. For every recorded generation, the counts computed by the statistics loop
  satisfy \<open>2 * n_hom_dom + n_het = n_dom_allele\<close> and
  \<open>2 * n_hom_rec + n_het = n_rec_allele\<close>.
\<close>

theorem allele_accounting:
  "2 * n_hom_dom (count_organisms gen zero_counts) +
     n_het (count_organisms gen zero_counts) =
   n_dom_allele (count_organisms gen zero_counts) \<and>
   2 * n_hom_rec (count_organisms gen zero_counts) +
     n_het (count_organisms gen zero_counts) =
   n_rec_allele (count_organisms gen zero_counts)"
  by (rule count_organisms_alleles) (simp_all add: zero_counts_def)

text \<open>
  Claim C1 says that the entry of \<open>TOTAL_N\<close> for an extinct generation is 0. The script
  appends \<open>genotype_total\<close> after the guard has overwritten it with 1: in the example
  run the second generation is empty and its entry of \<open>TOTAL_N\<close> is 1.
\<close>

theorem extinct_generation_total_is_one:
  "\<exists>hist pop r s.
     simulate example_config example_rng = Some (Inr (hist, pop, r)) \<and>
     hist ! 1 = [] \<and> statistics hist = Inr s \<and> TOTAL_N s ! 1 = 1"
  by (simp add: example_run example_statistics)

text \<open>
  Claim C4. For every recorded history the statistics loop raises no error (no division
  by zero) and appends one entry per generation to each series, so each series is as
  long as the history, which after a completed run has \<open>N_GENERATIONS\<close> entries; for
  an empty generation each of the five percentage entries is 0.
\<close>

theorem statistics_series_complete:
  "\<exists>s. statistics GENERATIONAL_DATA = Inr s \<and>
     length (HOM_DOM_N_LIST s) = length GENERATIONAL_DATA \<and>
     length (HET_N_LIST s) = length GENERATIONAL_DATA \<and>
     length (HOM_REC_N_LIST s) = length GENERATIONAL_DATA \<and>
     length (DOM_ALLELE_N s) = length GENERATIONAL_DATA \<and>
     length (REC_ALLELE_N s) = length GENERATIONAL_DATA \<and>
     length (TOTAL_N s) = length GENERATIONAL_DATA \<and>
     (\<forall>g < length GENERATIONAL_DATA. GENERATIONAL_DATA ! g = [] \<longrightarrow>
        HOM_DOM_N_LIST s ! g = 0 \<and> HET_N_LIST s ! g = 0 \<and> HOM_REC_N_LIST s ! g = 0 \<and>
        DOM_ALLELE_N s ! g = 0 \<and> REC_ALLELE_N s ! g = 0) \<and>
     (\<forall>cfg r pop r'. simulate cfg r = Some (Inr (GENERATIONAL_DATA, pop, r')) \<longrightarrow>
        length GENERATIONAL_DATA = N_GENERATIONS cfg)"
proof -
  obtain as bs cs ds es ts where
    eq: "statistics_loop GENERATIONAL_DATA empty_series =
       Inr (empty_series\<lparr>HOM_DOM_N_LIST := HOM_DOM_N_LIST empty_series @ as,
              HOM_REC_N_LIST := HOM_REC_N_LIST empty_series @ bs,
              HET_N_LIST := HET_N_LIST empty_series @ cs,
              DOM_ALLELE_N := DOM_ALLELE_N empty_series @ ds,
              REC_ALLELE_N := REC_ALLELE_N empty_series @ es,
              TOTAL_N := TOTAL_N empty_series @ ts\<rparr>)"
    and len: "length as = length GENERATIONAL_DATA" "length bs = length GENERATIONAL_DATA"
      "length cs = length GENERATIONAL_DATA" "length ds = length GENERATIONAL_DATA"
      "length es = length GENERATIONAL_DATA" "length ts = length GENERATIONAL_DATA"
    and zero: "\<forall>g < length GENERATIONAL_DATA. GENERATIONAL_DATA ! g = [] \<longrightarrow>
        as ! g = 0 \<and> bs ! g = 0 \<and> cs ! g = 0 \<and> ds ! g = 0 \<and> es ! g = 0 \<and> ts ! g = 1"
    using statistics_loop_appends [of GENERATIONAL_DATA empty_series] by blast
  have run: "\<forall>cfg r pop r'. simulate cfg r = Some (Inr (GENERATIONAL_DATA, pop, r')) \<longrightarrow>
        length GENERATIONAL_DATA = N_GENERATIONS cfg"
    using main_loop_length by (fastforce simp: simulate_def)
  show ?thesis
    using eq len zero run by (simp add: statistics_def empty_series_def)
qed

theorem statistics_series_complete_witness:
  "simulate example_config example_rng =
     Some (Inr ([[''Aa'', ''Aa''], [], []], [],
                example_rng\<lparr>u_pos := 2, n_pos := 1, r_pos := 1\<rparr>)) \<and>
   [[''Aa'', ''Aa''], [], []] ! 1 = [] \<and>
   (\<exists>s. statistics [[''Aa'', ''Aa''], [], []] = Inr s \<and>
      length (HET_N_LIST s) = N_GENERATIONS example_config \<and>
      length (TOTAL_N s) = N_GENERATIONS example_config \<and>
      HOM_DOM_N_LIST s ! 1 = 0 \<and> HET_N_LIST s ! 1 = 0 \<and> HOM_REC_N_LIST s ! 1 = 0 \<and>
      DOM_ALLELE_N s ! 1 = 0 \<and> REC_ALLELE_N s ! 1 = 0)"
  using statistics_series_complete [of "[[''Aa'', ''Aa''], [], []]"] example_run
  by (simp add: example_statistics example_config_def)

subsection \<open>Offspring counts\<close>

text \<open>
  Claim C9. The offspring count is the normal draw rounded to the nearest integer, with
  nothing done to the draw before the rounding and nothing to the result after it; when
  the count \<open>n\<close> is at most 0 the inner loop of the pair does not run: the new
  population is unchanged and only the normal draw has been consumed.
\<close>

theorem nonpositive_offspring_count:
  "(0 \<le> OFFSPRING_N_STD cfg \<longrightarrow>
      howManyOffspring cfg r =
        Inr (py_round (OFFSPRING_N_MEAN cfg + OFFSPRING_N_STD cfg * normals r (n_pos r)),
             r\<lparr>n_pos := Suc (n_pos r)\<rparr>)) \<and>
   \<bar>real_of_int (py_round x) - x\<bar> \<le> 1 / 2 \<and>
   (howManyOffspring cfg r = Inr (n, r') \<longrightarrow> n \<le> 0 \<longrightarrow>
      reproduce_pair cfg pop pr new r = Inr (new, r'))"
  using py_round_nearest [of x]
  by (simp add: howManyOffspring_def np_random_normal_def reproduce_pair_def)

theorem nonpositive_offspring_count_witness:
  "0 \<le> OFFSPRING_N_STD example_config \<and>
   howManyOffspring example_config example_rng = Inr (- 2, example_rng\<lparr>n_pos := 1\<rparr>) \<and>
   (- 2 :: int) \<le> 0 \<and>
   reproduce_pair example_config [''Aa'', ''Aa''] (1, 0) [] example_rng =
     Inr ([], example_rng\<lparr>n_pos := 1\<rparr>)"
  using nonpositive_offspring_count
    [of example_config example_rng 0 "- 2" "example_rng\<lparr>n_pos := 1\<rparr>" "[''Aa'', ''Aa'']" "(1, 0)" "[]"]
  by (simp add: run_defs)


subsection \<open>Mating\<close>

lemma shuffle_loop_mset:
  "i < length x \<Longrightarrow> mset (fst (shuffle_loop i x r)) = mset x"
proof (induction i arbitrary: x r)
  case 0
  show ?case by simp
next
  case (Suc i)
  have "randoms r (r_pos r) mod (Suc i + 1) < Suc i + 1"
    by (rule mod_less_divisor) simp
  with Suc.prems have j: "randoms r (r_pos r) mod (Suc i + 1) < length x"
    by linarith
  show ?case
    using Suc.prems j Suc.IH
    by (simp add: randbelow_def mset_swap)
qed

lemma random_shuffle_mset: "mset (fst (random_shuffle x r)) = mset x"
  by (cases x) (simp_all add: random_shuffle_def shuffle_loop_mset)

lemma stride2_length: "length (stride2 l) = (length l + 1) div 2"
  by (induction l rule: stride2.induct) simp_all

lemma stride2_drop_length: "length (stride2 (drop 1 l)) = length l div 2"
  by (cases l) (simp_all add: stride2_length)

lemma stride2_Cons: "stride2 (x # xs) = x # stride2 (drop 1 xs)"
  by (cases xs) simp_all

lemma stride2_mset: "mset (stride2 l) + mset (stride2 (drop 1 l)) = mset l"
proof (induction l)
  case Nil
  show ?case by simp
next
  case (Cons x xs)
  have "mset (stride2 (x # xs)) + mset (stride2 (drop 1 (x # xs))) =
        add_mset x (mset (stride2 (drop 1 xs)) + mset (stride2 xs))"
    by (simp add: stride2_Cons)
  also have "\<dots> = add_mset x (mset xs)"
    using Cons.IH by (simp add: add.commute)
  finally show ?case by simp
qed

lemma mating_pairs_zip: "mating_pairs l1 l2 = zip l1 l2"
  by (simp add: mating_pairs_def list_eq_iff_nth_eq)


lemma stride2_nth: "k < length (stride2 l) \<Longrightarrow> stride2 l ! k = l ! (2 * k)"
proof (induction l arbitrary: k rule: stride2.induct)
  case 1
  then show ?case by simp
next
  case (2 x)
  then show ?case by simp
next
  case (3 x y xs)
  then show ?case by (cases k) simp_all
qed

lemma stride2_drop_nth:
  "k < length (stride2 (drop 1 l)) \<Longrightarrow> stride2 (drop 1 l) ! k = l ! (2 * k + 1)"
  using stride2_nth [of k "drop 1 l"] by (cases l) simp_all

lemma mating_pairs_of_shuffle:
  assumes l: "mset l = mset [0..<n]"
  defines "l1 \<equiv> stride2 l" and "l2 \<equiv> stride2 (drop 1 l)"
  defines "paired \<equiv> map fst (mating_pairs l1 l2) @ map snd (mating_pairs l1 l2)"
  shows "length (mating_pairs l1 l2) = n div 2"
    and "distinct paired"
    and "set paired \<subseteq> {0..<n}"
    and "card ({0..<n} - set paired) = n mod 2"
proof -
  have len: "length l = n"
    using l by (metis length_upt mset_eq_length minus_nat.diff_0)
  have len1: "length l1 = (n + 1) div 2" and len2: "length l2 = n div 2"
    using len by (simp_all add: l1_def l2_def stride2_length stride2_drop_length)
  have dl: "distinct l"
    using l by (metis distinct_upt mset_eq_imp_distinct_iff)
  have sl: "set l = {0..<n}"
    using l by (metis mset_eq_setD set_upt)
  have "mset (l1 @ l2) = mset l"
    using stride2_mset [of l] by (simp add: l1_def l2_def)
  then have d12: "distinct (l1 @ l2)" and s12: "set (l1 @ l2) = set l"
    using dl by (metis mset_eq_imp_distinct_iff, metis mset_eq_setD)
  have paired: "paired = take (n div 2) l1 @ l2"
    using len1 len2
    by (simp add: paired_def mating_pairs_zip map_fst_zip_take map_snd_zip_take min_def)
  show "length (mating_pairs l1 l2) = n div 2"
    using len1 len2 by (simp add: mating_pairs_zip)
  show dp: "distinct paired"
    using d12 unfolding paired by (auto dest: in_set_takeD)
  show sp: "set paired \<subseteq> {0..<n}"
    using s12 sl unfolding paired by (auto dest: in_set_takeD)
  have "length paired = 2 * (n div 2)"
    using len1 len2 unfolding paired by simp
  then have "card (set paired) = 2 * (n div 2)"
    using dp by (simp add: distinct_card)
  then have "card ({0..<n} - set paired) = n - 2 * (n div 2)"
    using sp by (simp add: card_Diff_subset)
  then show "card ({0..<n} - set paired) = n mod 2"
    by presburger
qed


text \<open>
  Claim C8. For every current population \<open>cur\<close> and every outcome of the draws, the
  shuffled list \<open>l\<close> is a permutation of the indices of \<open>cur\<close>; \<open>l1\<close> holds its
  even positions and \<open>l2\<close> its odd positions; the pairs visited are \<open>zip l1 l2\<close>, there
  are \<open>length cur div 2\<close> of them, no index occurs twice in them, and exactly one index
  is left out when the size is odd (none when it is even).
\<close>

theorem mating_step_pairs:
  fixes cur :: "string list" and r :: rng
  defines "l \<equiv> fst (random_shuffle [0..<length cur] r)"
  defines "l1 \<equiv> stride2 l" and "l2 \<equiv> stride2 (drop 1 l)"
  defines "paired \<equiv> map fst (mating_pairs l1 l2) @ map snd (mating_pairs l1 l2)"
  shows "mset l = mset [0..<length cur] \<and>
         (\<forall>k < length l1. l1 ! k = l ! (2 * k)) \<and>
         (\<forall>k < length l2. l2 ! k = l ! (2 * k + 1)) \<and>
         mating_pairs l1 l2 = zip l1 l2 \<and>
         length (mating_pairs l1 l2) = length cur div 2 \<and>
         distinct paired \<and>
         set paired \<subseteq> {0..<length cur} \<and>
         (odd (length cur) \<longrightarrow> card ({0..<length cur} - set paired) = 1) \<and>
         (even (length cur) \<longrightarrow> set paired = {0..<length cur})"
proof -
  have perm: "mset l = mset [0..<length cur]"
    by (simp add: l_def random_shuffle_mset)
  note facts = mating_pairs_of_shuffle [OF perm, folded l1_def l2_def, folded paired_def]
  have fin: "finite {0..<length cur}" by simp
  have ev: "even (length cur) \<longrightarrow> set paired = {0..<length cur}"
  proof
    assume "even (length cur)"
    then have "card ({0..<length cur} - set paired) = 0"
      using facts(4) by (simp add: even_iff_mod_2_eq_zero)
    then have "{0..<length cur} - set paired = {}"
      using fin by simp
    with facts(3) show "set paired = {0..<length cur}" by blast
  qed
  have od: "odd (length cur) \<longrightarrow> card ({0..<length cur} - set paired) = 1"
    using facts(4) by (simp add: odd_iff_mod_2_eq_one)
  have n1: "\<forall>k < length l1. l1 ! k = l ! (2 * k)"
    by (simp add: l1_def stride2_nth)
  have n2: "\<forall>k < length l2. l2 ! k = l ! (2 * k + 1)"
    unfolding l2_def by (intro allI impI) (rule stride2_drop_nth)
  have z: "mating_pairs l1 l2 = zip l1 l2"
    by (rule mating_pairs_zip)
  show ?thesis
    by (intro conjI perm n1 n2 z facts(1) facts(2) facts(3) od ev)
qed


theorem mating_step_pairs_witness:
  "odd (length [''Aa'', ''AA'', ''aa'']) \<and>
   fst (random_shuffle [0..<length [''Aa'', ''AA'', ''aa'']] example_rng) = [1, 2, 0] \<and>
   mating_pairs (stride2 (fst (random_shuffle [0..<length [''Aa'', ''AA'', ''aa'']] example_rng)))
        (stride2 (drop 1 (fst (random_shuffle [0..<length [''Aa'', ''AA'', ''aa'']] example_rng)))) = [(1, 2)] \<and>
   card ({0..<length [''Aa'', ''AA'', ''aa'']} -
         set (map fst (mating_pairs (stride2 (fst (random_shuffle [0..<length [''Aa'', ''AA'', ''aa'']] example_rng)))
        (stride2 (drop 1 (fst (random_shuffle [0..<length [''Aa'', ''AA'', ''aa'']] example_rng))))) @
              map snd (mating_pairs (stride2 (fst (random_shuffle [0..<length [''Aa'', ''AA'', ''aa'']] example_rng)))
        (stride2 (drop 1 (fst (random_shuffle [0..<length [''Aa'', ''AA'', ''aa'']] example_rng))))))) = 1"
proof -
  have o: "odd (length [''Aa'', ''AA'', ''aa''])"
    by simp
  have u: "[0..<length [''Aa'', ''AA'', ''aa'']] = [0, 1, 2]"
    by (simp add: upt_conv_Cons)
  have n: "length [0::nat, 1, 2] - 1 = Suc (Suc 0)"
    by simp
  have l: "fst (random_shuffle [0..<length [''Aa'', ''AA'', ''aa'']] example_rng) = [1, 2, 0]"
    unfolding u random_shuffle_def n shuffle_loop.simps randbelow_def
    by (simp add: example_rng_def)
  have p: "mating_pairs (stride2 (fst (random_shuffle [0..<length [''Aa'', ''AA'', ''aa'']] example_rng)))
        (stride2 (drop 1 (fst (random_shuffle [0..<length [''Aa'', ''AA'', ''aa'']] example_rng)))) = [(1, 2)]"
    unfolding l by (simp add: mating_pairs_def)
  have c: "card ({0..<length [''Aa'', ''AA'', ''aa'']} -
         set (map fst (mating_pairs (stride2 (fst (random_shuffle [0..<length [''Aa'', ''AA'', ''aa'']] example_rng)))
        (stride2 (drop 1 (fst (random_shuffle [0..<length [''Aa'', ''AA'', ''aa'']] example_rng))))) @
              map snd (mating_pairs (stride2 (fst (random_shuffle [0..<length [''Aa'', ''AA'', ''aa'']] example_rng)))
        (stride2 (drop 1 (fst (random_shuffle [0..<length [''Aa'', ''AA'', ''aa'']] example_rng))))))) = 1"
    by (rule mating_step_pairs [of "[''Aa'', ''AA'', ''aa'']" example_rng, THEN conjunct2, THEN conjunct2,
          THEN conjunct2, THEN conjunct2, THEN conjunct2, THEN conjunct2, THEN conjunct2,
          THEN conjunct1, THEN mp, OF o])
  show ?thesis
    by (intro conjI o l p c)
qed

end
